theory Spec2Isabelle
  imports Complex_Main
begin

section \<open>The BISE Sargodha result scraper (app.py)\<close>

text \<open>
  The script fetches a result page per roll number, reads three labelled fields out of
  the answer and renders the collected records as one table. The HTTP session, the HTML
  parser and the PDF builder are libraries outside the script; they enter the model as
  the fields of an environment record, so every theorem holds for every behaviour of
  these collaborators. Each call of a collaborator is also appended to a trace, which
  is how the number and the order of network calls are observed.
\<close>

subsection \<open>Values, exceptions and pages\<close>

text \<open>
  A roll number is whatever the caller passes: the driver passes integers, the
  docstring of \<open>fetch_one_roll\<close> shows text. \<open>str\<close> is Python's conversion to text.
\<close>

datatype pyval = PInt int | PStr string

text \<open>The decimal digits of a non-negative integer, and \<open>str\<close> of an integer.\<close>

definition digit :: "int \<Rightarrow> char" where
  "digit d =
     (if d = 0 then CHR ''0'' else if d = 1 then CHR ''1'' else if d = 2 then CHR ''2''
      else if d = 3 then CHR ''3'' else if d = 4 then CHR ''4'' else if d = 5 then CHR ''5''
      else if d = 6 then CHR ''6'' else if d = 7 then CHR ''7'' else if d = 8 then CHR ''8''
      else CHR ''9'')"

function digits :: "int \<Rightarrow> string" where
  "digits n = (if n < 10 then [digit n] else digits (n div 10) @ [digit (n mod 10)])"
  by pat_completeness auto
termination
  by (relation "measure nat") auto

declare digits.simps [simp del]

definition str_int :: "int \<Rightarrow> string" where
  "str_int i = (if i < 0 then CHR ''-'' # digits (- i) else digits i)"

fun str :: "pyval \<Rightarrow> string" where
  "str (PInt i) = str_int i"
| "str (PStr s) = s"

text \<open>
  The exceptions the script can meet, all subclasses of Python's \<open>Exception\<close>: a failure
  of the HTTP library (timeout, connection error) with its message, a failure of the
  parser or of the PDF builder with its message, a console that cannot encode or take
  what is printed, subscripting \<open>None\<close>, and a missing attribute key. \<open>str_exn\<close> is the text \<open>str(e)\<close> that the f-string of line 119
  inserts; for a \<open>KeyError\<close> that is the key in quotes. An interrupt of the process
  (\<open>KeyboardInterrupt\<close>, \<open>SystemExit\<close>) is not an \<open>Exception\<close> and is not part of
  the model.
\<close>

datatype exn =
    RequestException string
  | ParserException string
  | BuildException string
  | UnicodeEncodeError string
  | TypeError string
  | KeyError string

fun str_exn :: "exn \<Rightarrow> string" where
  "str_exn (RequestException m) = m"
| "str_exn (ParserException m) = m"
| "str_exn (BuildException m) = m"
| "str_exn (UnicodeEncodeError m) = m"
| "str_exn (TypeError m) = m"
| "str_exn (KeyError k) = [CHR 0x27] @ k @ [CHR 0x27]"

text \<open>
  A parsed page is the sequence of its elements in document order. Of an element the
  script reads only its attributes (\<open>tag["value"]\<close>) and the value of
  \<open>get_text(strip=True)\<close>, kept here as the field \<open>text_stripped\<close>.
\<close>

type_synonym html = string

record tag =
  attrs :: "(string \<times> string) list"
  text_stripped :: string

type_synonym soup = "tag list"

text \<open>\<open>soup.select_one("#ident")\<close>: the first element whose id is \<open>ident\<close>, or \<open>None\<close>.\<close>

definition select_one :: "soup \<Rightarrow> string \<Rightarrow> tag option" where
  "select_one sp sel =
     (case sel of
        [] \<Rightarrow> None
      | c # ident \<Rightarrow>
          (if c = CHR ''#'' then find (\<lambda>t. map_of (attrs t) ''id'' = Some ident) sp else None))"

text \<open>
  \<open>x["value"]\<close> on the result of \<open>select_one\<close>: a \<open>TypeError\<close> when the element was not
  found (\<open>None\<close> is not subscriptable), a \<open>KeyError\<close> when it has no such attribute.
\<close>

definition subscript :: "tag option \<Rightarrow> string \<Rightarrow> exn + string" where
  "subscript x key =
     (case x of
        None \<Rightarrow>
          Inl (TypeError ([CHR 0x27] @ ''NoneType'' @ [CHR 0x27] @ '' object is not subscriptable''))
      | Some t \<Rightarrow> (case map_of (attrs t) key of None \<Rightarrow> Inl (KeyError key) | Some v \<Rightarrow> Inr v))"

type_synonym dict = "(string \<times> pyval) list"

text \<open>\<open>d.get(key, default)\<close>.\<close>

definition dict_get :: "dict \<Rightarrow> string \<Rightarrow> pyval \<Rightarrow> pyval" where
  "dict_get d key dflt = (case map_of d key of None \<Rightarrow> dflt | Some v \<Rightarrow> v)"

subsection \<open>The PDF elements handed to reportlab\<close>

datatype color = darkblue | whitesmoke | lightgrey | black

type_synonym cell = "int \<times> int"

datatype style_cmd =
    BACKGROUND cell cell color
  | TEXTCOLOR cell cell color
  | ALIGN cell cell string
  | FONTNAME cell cell string
  | FONTSIZE cell cell nat
  | ROWBACKGROUNDS cell cell "color list"
  | GRID cell cell rat color
  | BOTTOMPADDING cell cell nat

datatype flowable =
    Paragraph string string
  | Spacer nat nat
  | Table "pyval list list" "nat list" "style_cmd list"

datatype pagesize = Landscape_A4

record document =
  filename :: string
  page :: pagesize
  elements :: "flowable list"

subsection \<open>The collaborators and the trace of their calls\<close>

type_synonym form = "(string \<times> string) list"

datatype event =
    Session_open
  | Session_close
  | Get string nat
  | Post string form form nat
  | Print_line string
  | Print_dict dict
  | Build document

text \<open>What the script prints: a line of text (lines 169 and 185) or a record (line 187).\<close>

datatype printable = Text string | Dict dict

text \<open>
  \<open>requests_get url timeout\<close> and \<open>requests_post url data headers timeout\<close> answer
  with the decoded body of the response or raise; \<open>bs4_parse\<close> is
  \<open>BeautifulSoup(text, "lxml")\<close>; \<open>reportlab_build\<close> is \<open>doc.build\<close>;
  \<open>builtin_print\<close> is Python's \<open>print\<close>, which raises when standard output cannot
  encode or take the text. The type \<open>'w\<close> is the state of everything outside the
  script (server, cookies, file system, console).
\<close>

record 'w env =
  requests_get :: "string \<Rightarrow> nat \<Rightarrow> 'w \<Rightarrow> (exn + html) \<times> 'w"
  requests_post :: "string \<Rightarrow> form \<Rightarrow> form \<Rightarrow> nat \<Rightarrow> 'w \<Rightarrow> (exn + html) \<times> 'w"
  bs4_parse :: "html \<Rightarrow> exn + soup"
  reportlab_build :: "document \<Rightarrow> 'w \<Rightarrow> (exn + unit) \<times> 'w"
  builtin_print :: "printable \<Rightarrow> 'w \<Rightarrow> (exn + unit) \<times> 'w"

record 'w state =
  world :: 'w
  trace :: "event list"

definition log :: "event \<Rightarrow> 'w state \<Rightarrow> 'w state" where
  "log ev st = st\<lparr>trace := trace st @ [ev]\<rparr>"

definition session_get :: "'w env \<Rightarrow> string \<Rightarrow> nat \<Rightarrow> 'w state \<Rightarrow> (exn + html) \<times> 'w state" where
  "session_get env url timeout st =
     (case requests_get env url timeout (world st) of
        (r, w) \<Rightarrow> (r, log (Get url timeout) (st\<lparr>world := w\<rparr>)))"

definition session_post ::
  "'w env \<Rightarrow> string \<Rightarrow> form \<Rightarrow> form \<Rightarrow> nat \<Rightarrow> 'w state \<Rightarrow> (exn + html) \<times> 'w state" where
  "session_post env url data headers timeout st =
     (case requests_post env url data headers timeout (world st) of
        (r, w) \<Rightarrow> (r, log (Post url data headers timeout) (st\<lparr>world := w\<rparr>)))"

definition doc_build :: "'w env \<Rightarrow> document \<Rightarrow> 'w state \<Rightarrow> (exn + unit) \<times> 'w state" where
  "doc_build env doc st =
     (case reportlab_build env doc (world st) of
        (r, w) \<Rightarrow> (r, log (Build doc) (st\<lparr>world := w\<rparr>)))"

text \<open>A call of \<open>print\<close>; the attempt is recorded whether or not it raises.\<close>

definition print :: "'w env \<Rightarrow> printable \<Rightarrow> 'w state \<Rightarrow> (exn + unit) \<times> 'w state" where
  "print env x st =
     (case builtin_print env x (world st) of
        (r, w) \<Rightarrow>
          (r, log (case x of Text l \<Rightarrow> Print_line l | Dict d \<Rightarrow> Print_dict d) (st\<lparr>world := w\<rparr>)))"

subsection \<open>Step 1: get_tokens\<close>

definition BASE :: string where
  "BASE = ''http://119.159.230.2/biseresultday2/resultday.aspx''"

definition get_tokens :: "'w env \<Rightarrow> 'w state \<Rightarrow> (exn + string \<times> string) \<times> 'w state" where
  "get_tokens env st =
     (case session_get env BASE 20 st of
        (Inl e, st1) \<Rightarrow> (Inl e, st1)
      | (Inr text, st1) \<Rightarrow>
          (case bs4_parse env text of
             Inl e \<Rightarrow> (Inl e, st1)
           | Inr sp \<Rightarrow>
               (case subscript (select_one sp ''#__VIEWSTATE'') ''value'' of
                  Inl e \<Rightarrow> (Inl e, st1)
                | Inr viewstate \<Rightarrow>
                    (case subscript (select_one sp ''#__EVENTVALIDATION'') ''value'' of
                       Inl e \<Rightarrow> (Inl e, st1)
                     | Inr eventvalidation \<Rightarrow> (Inr (viewstate, eventvalidation), st1)))))"

subsection \<open>Step 2: fetch_one_roll\<close>

definition payload :: "string \<Rightarrow> string \<Rightarrow> pyval \<Rightarrow> form" where
  "payload viewstate eventvalidation roll_no =
     [(''__VIEWSTATE'', viewstate),
      (''__EVENTVALIDATION'', eventvalidation),
      (''__EVENTTARGET'', ''''),
      (''__EVENTARGUMENT'', ''''),
      (''RbtSearchType'', ''Search by Roll No.''),
      (''TxtSearchText'', str roll_no),
      (''BtnShowResults'', ''Show Result'')]"

definition headers :: form where
  "headers = [(''User-Agent'', ''Mozilla/5.0''), (''Referer'', BASE)]"

text \<open>Lines 94 to 115: what is read out of the parsed answer.\<close>

definition read_result :: "soup \<Rightarrow> pyval \<Rightarrow> dict" where
  "read_result sp roll_no =
     (let err = select_one sp ''#LblErr'' in
      if (case err of None \<Rightarrow> False | Some t \<Rightarrow> text_stripped t \<noteq> [])
      then [(''Roll No'', roll_no), (''Name'', PStr []),
            (''Result'', PStr (text_stripped (the err)))]
      else
        let name_tag = select_one sp ''#LblName'';
            name = (case name_tag of Some t \<Rightarrow> text_stripped t | None \<Rightarrow> []);
            roll_tag = select_one sp ''#LblRollNo'';
            roll_on_page = (case roll_tag of Some t \<Rightarrow> text_stripped t | None \<Rightarrow> str roll_no);
            res_tag = select_one sp ''#lblGazres'';
            final_result = (case res_tag of Some t \<Rightarrow> text_stripped t | None \<Rightarrow> [])
        in [(''Roll No'', PStr roll_on_page), (''Name'', PStr name),
            (''Result'', PStr final_result)])"

text \<open>The body of the \<open>try\<close> block, lines 65 to 115.\<close>

definition fetch_one_roll_try :: "'w env \<Rightarrow> pyval \<Rightarrow> 'w state \<Rightarrow> (exn + dict) \<times> 'w state" where
  "fetch_one_roll_try env roll_no st =
     (case get_tokens env st of
        (Inl e, st1) \<Rightarrow> (Inl e, st1)
      | (Inr (viewstate, eventvalidation), st1) \<Rightarrow>
          (case session_post env BASE (payload viewstate eventvalidation roll_no) headers 20 st1 of
             (Inl e, st2) \<Rightarrow> (Inl e, st2)
           | (Inr text, st2) \<Rightarrow>
               (case bs4_parse env text of
                  Inl e \<Rightarrow> (Inl e, st2)
                | Inr sp \<Rightarrow> (Inr (read_result sp roll_no), st2))))"

text \<open>The whole function: \<open>except Exception as e\<close> turns every exception into a record.\<close>

definition fetch_one_roll :: "'w env \<Rightarrow> pyval \<Rightarrow> 'w state \<Rightarrow> (exn + dict) \<times> 'w state" where
  "fetch_one_roll env roll_no st =
     (case fetch_one_roll_try env roll_no st of
        (Inl e, st1) \<Rightarrow>
          (Inr [(''Roll No'', roll_no), (''Name'', PStr []),
                (''Result'', PStr (''Error: '' @ str_exn e))], st1)
      | (Inr d, st1) \<Rightarrow> (Inr d, st1))"

subsection \<open>Step 3: save_summary_pdf\<close>

definition header_row :: "pyval list" where
  "header_row = [PStr ''Roll No'', PStr ''Name'', PStr ''Final Result'']"

text \<open>The loop of lines 147 to 152, appending one row per entry to \<open>rows\<close>.\<close>

fun append_rows :: "pyval list list \<Rightarrow> dict list \<Rightarrow> pyval list list" where
  "append_rows rows [] = rows"
| "append_rows rows (entry # rest) =
     append_rows
       (rows @ [[dict_get entry ''Roll No'' (PStr []),
                 dict_get entry ''Name'' (PStr []),
                 dict_get entry ''Result'' (PStr [])]])
       rest"

definition table_style :: "style_cmd list" where
  "table_style =
     [BACKGROUND (0, 0) (- 1, 0) darkblue,
      TEXTCOLOR (0, 0) (- 1, 0) whitesmoke,
      ALIGN (0, 0) (- 1, - 1) ''CENTER'',
      FONTNAME (0, 0) (- 1, 0) ''Helvetica-Bold'',
      FONTSIZE (0, 0) (- 1, 0) 12,
      ROWBACKGROUNDS (0, 1) (- 1, - 1) [whitesmoke, lightgrey],
      GRID (0, 0) (- 1, - 1) (1 / 2) black,
      BOTTOMPADDING (0, 0) (- 1, 0) 8]"

text \<open>The table that lines 144 to 165 build from the records.\<close>

definition summary_table :: "dict list \<Rightarrow> flowable" where
  "summary_table data_list =
     Table (append_rows [header_row] data_list) [100, 180, 250] table_style"

text \<open>The check mark of the last message is the three bytes of its UTF-8 encoding.\<close>

definition saved_message :: "string \<Rightarrow> string" where
  "saved_message fname = [CHR 0xE2, CHR 0x9C, CHR 0x85] @ '' PDF saved: '' @ fname"

definition save_summary_pdf ::
  "'w env \<Rightarrow> dict list \<Rightarrow> string \<Rightarrow> 'w state \<Rightarrow> (exn + unit) \<times> 'w state" where
  "save_summary_pdf env data_list fname st =
     (let doc = \<lparr>filename = fname, page = Landscape_A4,
                 elements = [Paragraph ''BISE Sargodha Exam Results (Summary)'' ''Title'',
                             Spacer 1 20,
                             summary_table data_list]\<rparr>
      in case doc_build env doc st of
           (Inl e, st1) \<Rightarrow> (Inl e, st1)
         | (Inr u, st1) \<Rightarrow> print env (Text (saved_message fname)) st1)"

subsection \<open>Step 4: the main script\<close>

text \<open>
  The loop of lines 184 to 188 over the values of \<open>range(start_roll, end_roll + 1)\<close>,
  with the list \<open>results\<close> as accumulator. The two prints are outside the \<open>try\<close> of
  the lookup: when one raises, the loop ends there.
\<close>

fun driver_loop ::
  "'w env \<Rightarrow> int list \<Rightarrow> dict list \<Rightarrow> 'w state \<Rightarrow> (exn + dict list) \<times> 'w state" where
  "driver_loop env [] results st = (Inr results, st)"
| "driver_loop env (rn # rest) results st =
     (case print env (Text (''Fetching result for Roll No: '' @ str_int rn @ ''...'')) st of
        (Inl e, st1) \<Rightarrow> (Inl e, st1)
      | (Inr u, st1) \<Rightarrow>
          (case fetch_one_roll env (PInt rn) st1 of
             (Inl e, st2) \<Rightarrow> (Inl e, st2)
           | (Inr data, st2) \<Rightarrow>
               (case print env (Dict data) st2 of
                  (Inl e, st3) \<Rightarrow> (Inl e, st3)
                | (Inr u, st3) \<Rightarrow> driver_loop env rest (results @ [data]) st3)))"

text \<open>
  Lines 176 to 191 for given bounds: the session is opened, the loop runs, the
  \<open>with\<close> block closes the session also when the loop raised, and the report is written.
\<close>

definition main :: "'w env \<Rightarrow> int \<Rightarrow> int \<Rightarrow> 'w state \<Rightarrow> (exn + unit) \<times> 'w state" where
  "main env start_roll end_roll st =
     (case driver_loop env [start_roll..end_roll] [] (log Session_open st) of
        (Inl e, st1) \<Rightarrow> (Inl e, log Session_close st1)
      | (Inr results, st1) \<Rightarrow>
          save_summary_pdf env results ''bise_results_summary.pdf'' (log Session_close st1))"

subsection \<open>Reading a trace\<close>

text \<open>
  What a stretch of the trace shows: the network calls, the documents handed to the
  PDF builder, the progress lines and the records printed by the main loop.
\<close>

definition gets :: "event list \<Rightarrow> event list" where
  "gets evs = filter (\<lambda>ev. case ev of Get url t \<Rightarrow> True | _ \<Rightarrow> False) evs"

definition posts :: "event list \<Rightarrow> event list" where
  "posts evs = filter (\<lambda>ev. case ev of Post url d h t \<Rightarrow> True | _ \<Rightarrow> False) evs"

definition builds :: "event list \<Rightarrow> document list" where
  "builds evs = concat (map (\<lambda>ev. case ev of Build doc \<Rightarrow> [doc] | _ \<Rightarrow> []) evs)"

definition printed_lines :: "event list \<Rightarrow> string list" where
  "printed_lines evs = concat (map (\<lambda>ev. case ev of Print_line l \<Rightarrow> [l] | _ \<Rightarrow> []) evs)"

definition printed_dicts :: "event list \<Rightarrow> dict list" where
  "printed_dicts evs = concat (map (\<lambda>ev. case ev of Print_dict d \<Rightarrow> [d] | _ \<Rightarrow> []) evs)"

subsection \<open>A simulated server\<close>

text \<open>
  A small environment on which the theorems are run: the world counts the calls made,
  page bodies are short names and the parser is a table from these names to elements.
  \<open>sim_env g p\<close> answers every GET with \<open>g\<close> and a POST for roll number \<open>r\<close> with \<open>p r\<close>.
\<close>

definition el :: "string \<Rightarrow> string \<Rightarrow> tag" where
  "el ident txt = \<lparr>attrs = [(''id'', ident)], text_stripped = txt\<rparr>"

definition hidden :: "string \<Rightarrow> string \<Rightarrow> tag" where
  "hidden ident v = \<lparr>attrs = [(''type'', ''hidden''), (''id'', ident), (''value'', v)], text_stripped = []\<rparr>"

definition sim_parse :: "html \<Rightarrow> exn + soup" where
  "sim_parse h =
     (if h = ''TOKENS'' then Inr [hidden ''__VIEWSTATE'' ''vs1'', hidden ''__EVENTVALIDATION'' ''ev1'']
      else if h = ''HALF'' then Inr [hidden ''__VIEWSTATE'' ''vs1'']
      else if h = ''RESULT'' then
        Inr [el ''LblErr'' [], el ''LblName'' ''Ali Khan'', el ''LblRollNo'' ''763130'',
             el ''lblGazres'' ''Passed with 850 marks'']
      else if h = ''INVALID'' then
        Inr [el ''LblErr'' ''Invalid Roll No.'', el ''LblName'' ''Ghost'',
             el ''LblRollNo'' ''000000'', el ''lblGazres'' ''none'']
      else if h = ''URDU'' then
        Inr [el ''LblName'' [CHR 0xD8, CHR 0xB9, CHR 0xD9, CHR 0x84, CHR 0xDB, CHR 0x8C],
             el ''LblRollNo'' ''123456'', el ''lblGazres'' ''850'']
      else if h = ''BARE'' then Inr []
      else Inl (ParserException ''malformed page''))"

definition sim_env :: "(exn + html) \<Rightarrow> (string \<Rightarrow> exn + html) \<Rightarrow> nat env" where
  "sim_env g p =
     \<lparr>requests_get = (\<lambda>url timeout w. (g, Suc w)),
      requests_post = (\<lambda>url data hdrs timeout w.
         (p (case map_of data ''TxtSearchText'' of None \<Rightarrow> [] | Some r \<Rightarrow> r), Suc w)),
      bs4_parse = sim_parse,
      reportlab_build = (\<lambda>doc w. (Inr (), Suc w)),
      builtin_print = (\<lambda>x w. (Inr (), w))\<rparr>"



definition timed_out :: exn where
  "timed_out = RequestException ''Read timed out. (read timeout=20)''"

text \<open>
  Five servers: one that knows roll number 123456 and reports every other one as
  invalid, one that never answers, one whose form submission times out, one whose
  first page lacks the second hidden field, and one that answers with an empty page.
\<close>

definition server_up :: "nat env" where
  "server_up = sim_env (Inr ''TOKENS'') (\<lambda>r. if r = ''123456'' then Inr ''RESULT'' else Inr ''INVALID'')"

definition server_down :: "nat env" where
  "server_down = sim_env (Inl timed_out) (\<lambda>r. Inr ''RESULT'')"

definition server_slow :: "nat env" where
  "server_slow = sim_env (Inr ''TOKENS'') (\<lambda>r. Inl timed_out)"

definition server_half :: "nat env" where
  "server_half = sim_env (Inr ''HALF'') (\<lambda>r. Inr ''RESULT'')"

definition server_bare :: "nat env" where
  "server_bare = sim_env (Inr ''TOKENS'') (\<lambda>r. Inr ''BARE'')"


definition start_state :: "nat state" where
  "start_state = \<lparr>world = 0, trace = []\<rparr>"

section \<open>Properties\<close>

subsection \<open>The calls of the collaborators\<close>

lemma session_get_eq:
  "session_get env url t st =
     (fst (requests_get env url t (world st)),
      \<lparr>world = snd (requests_get env url t (world st)), trace = trace st @ [Get url t]\<rparr>)"
  by (simp add: session_get_def log_def split: prod.splits)

lemma session_post_eq:
  "session_post env url d h t st =
     (fst (requests_post env url d h t (world st)),
      \<lparr>world = snd (requests_post env url d h t (world st)),
         trace = trace st @ [Post url d h t]\<rparr>)"
  by (simp add: session_post_def log_def split: prod.splits)

lemma doc_build_eq:
  "doc_build env doc st =
     (fst (reportlab_build env doc (world st)),
      \<lparr>world = snd (reportlab_build env doc (world st)), trace = trace st @ [Build doc]\<rparr>)"
  by (simp add: doc_build_def log_def split: prod.splits)

lemma get_tokens_state:
  "snd (get_tokens env st) =
     \<lparr>world = snd (requests_get env BASE 20 (world st)), trace = trace st @ [Get BASE 20]\<rparr>"
  by (simp add: get_tokens_def session_get_eq split: sum.splits)



lemma fetch_one_roll_Inr:
  "\<exists>d. fst (fetch_one_roll env roll_no st) = Inr d"
  by (simp add: fetch_one_roll_def split: prod.splits sum.splits)

lemma read_result_keys: "map fst (read_result sp roll_no) = [''Roll No'', ''Name'', ''Result'']"
  by (simp add: read_result_def Let_def)


lemma try_tokens_fail:
  "fst (get_tokens env st) = Inl e \<Longrightarrow> fst (fetch_one_roll_try env roll_no st) = Inl e"
  by (cases "get_tokens env st") (simp add: fetch_one_roll_try_def)

lemma try_post_fail:
  "get_tokens env st = (Inr (vs, ev), st1) \<Longrightarrow>
   fst (requests_post env BASE (payload vs ev roll_no) headers 20 (world st1)) = Inl e \<Longrightarrow>
   fst (fetch_one_roll_try env roll_no st) = Inl e"
  by (simp add: fetch_one_roll_try_def session_post_eq)

lemma try_parse_fail:
  "get_tokens env st = (Inr (vs, ev), st1) \<Longrightarrow>
   fst (requests_post env BASE (payload vs ev roll_no) headers 20 (world st1)) = Inr text \<Longrightarrow>
   bs4_parse env text = Inl e \<Longrightarrow>
   fst (fetch_one_roll_try env roll_no st) = Inl e"
  by (simp add: fetch_one_roll_try_def session_post_eq)

lemma try_parsed:
  "get_tokens env st = (Inr (vs, ev), st1) \<Longrightarrow>
   fst (requests_post env BASE (payload vs ev roll_no) headers 20 (world st1)) = Inr text \<Longrightarrow>
   bs4_parse env text = Inr sp \<Longrightarrow>
   fst (fetch_one_roll_try env roll_no st) = Inr (read_result sp roll_no)"
  by (simp add: fetch_one_roll_try_def session_post_eq)

lemma fetch_of_try_Inl:
  "fst (fetch_one_roll_try env roll_no st) = Inl e \<Longrightarrow>
   fst (fetch_one_roll env roll_no st) =
     Inr [(''Roll No'', roll_no), (''Name'', PStr []), (''Result'', PStr (''Error: '' @ str_exn e))]"
  by (cases "fetch_one_roll_try env roll_no st") (simp add: fetch_one_roll_def)

lemma fetch_of_try_Inr:
  "fst (fetch_one_roll_try env roll_no st) = Inr d \<Longrightarrow> fst (fetch_one_roll env roll_no st) = Inr d"
  by (cases "fetch_one_roll_try env roll_no st") (simp add: fetch_one_roll_def)

subsection \<open>Reading the answer\<close>

lemma read_result_error:
  "select_one sp ''#LblErr'' = Some err \<Longrightarrow> text_stripped err \<noteq> [] \<Longrightarrow>
   read_result sp roll_no =
     [(''Roll No'', roll_no), (''Name'', PStr []), (''Result'', PStr (text_stripped err))]"
  by (simp add: read_result_def)

lemma read_result_success:
  "select_one sp ''#LblErr'' = None \<or>
     (\<exists>err. select_one sp ''#LblErr'' = Some err \<and> text_stripped err = []) \<Longrightarrow>
   read_result sp roll_no =
     [(''Roll No'', PStr (case select_one sp ''#LblRollNo'' of
                            None \<Rightarrow> str roll_no | Some t \<Rightarrow> text_stripped t)),
      (''Name'', PStr (case select_one sp ''#LblName'' of
                         None \<Rightarrow> [] | Some t \<Rightarrow> text_stripped t)),
      (''Result'', PStr (case select_one sp ''#lblGazres'' of
                           None \<Rightarrow> [] | Some t \<Rightarrow> text_stripped t))]"
  by (auto simp add: read_result_def Let_def split: option.splits)

subsection \<open>The simulated servers at work\<close>

lemma sim_tokens_up:
  "get_tokens server_up start_state = (Inr (''vs1'', ''ev1''), \<lparr>world = 1, trace = [Get BASE 20]\<rparr>)"
  by code_simp

lemma sim_tokens_bare:
  "get_tokens server_bare start_state = (Inr (''vs1'', ''ev1''), \<lparr>world = 1, trace = [Get BASE 20]\<rparr>)"
  by code_simp

lemma sim_tokens_slow:
  "get_tokens server_slow start_state = (Inr (''vs1'', ''ev1''), \<lparr>world = 1, trace = [Get BASE 20]\<rparr>)"
  by code_simp

lemma sim_tokens_down: "fst (get_tokens server_down start_state) = Inl timed_out"
  by code_simp

lemma sim_post_invalid:
  "fst (requests_post server_up BASE (payload ''vs1'' ''ev1'' (PInt 7)) headers 20
     (world \<lparr>world = 1, trace = [Get BASE 20]\<rparr>)) = Inr ''INVALID''"
  by code_simp

lemma sim_post_result:
  "fst (requests_post server_up BASE (payload ''vs1'' ''ev1'' (PInt 123456)) headers 20
     (world \<lparr>world = 1, trace = [Get BASE 20]\<rparr>)) = Inr ''RESULT''"
  by code_simp

lemma sim_post_bare:
  "fst (requests_post server_bare BASE (payload ''vs1'' ''ev1'' (PInt 123456)) headers 20
     (world \<lparr>world = 1, trace = [Get BASE 20]\<rparr>)) = Inr ''BARE''"
  by code_simp

lemma sim_post_slow:
  "fst (requests_post server_slow BASE (payload ''vs1'' ''ev1'' (PInt 123456)) headers 20
     (world \<lparr>world = 1, trace = [Get BASE 20]\<rparr>)) = Inl timed_out"
  by code_simp

lemma sim_parse_invalid:
  "bs4_parse server_up ''INVALID'' =
     Inr [el ''LblErr'' ''Invalid Roll No.'', el ''LblName'' ''Ghost'',
          el ''LblRollNo'' ''000000'', el ''lblGazres'' ''none'']"
  by (simp add: server_up_def sim_env_def sim_parse_def)

lemma sim_parse_result:
  "bs4_parse server_up ''RESULT'' =
     Inr [el ''LblErr'' [], el ''LblName'' ''Ali Khan'', el ''LblRollNo'' ''763130'',
          el ''lblGazres'' ''Passed with 850 marks'']"
  by (simp add: server_up_def sim_env_def sim_parse_def)

lemma sim_parse_bare: "bs4_parse server_bare ''BARE'' = Inr []"
  by (simp add: server_bare_def sim_env_def sim_parse_def)

lemma sim_select_invalid:
  "select_one [el ''LblErr'' ''Invalid Roll No.'', el ''LblName'' ''Ghost'',
               el ''LblRollNo'' ''000000'', el ''lblGazres'' ''none''] ''#LblErr''
     = Some (el ''LblErr'' ''Invalid Roll No.'')"
  "select_one [el ''LblErr'' ''Invalid Roll No.'', el ''LblName'' ''Ghost'',
               el ''LblRollNo'' ''000000'', el ''lblGazres'' ''none''] ''#LblRollNo''
     = Some (el ''LblRollNo'' ''000000'')"
  by (code_simp, code_simp)

lemma sim_select_result:
  "select_one [el ''LblErr'' [], el ''LblName'' ''Ali Khan'', el ''LblRollNo'' ''763130'',
               el ''lblGazres'' ''Passed with 850 marks''] ''#LblErr'' = Some (el ''LblErr'' [])"
  "select_one [el ''LblErr'' [], el ''LblName'' ''Ali Khan'', el ''LblRollNo'' ''763130'',
               el ''lblGazres'' ''Passed with 850 marks''] ''#LblName'' = Some (el ''LblName'' ''Ali Khan'')"
  "select_one [el ''LblErr'' [], el ''LblName'' ''Ali Khan'', el ''LblRollNo'' ''763130'',
               el ''lblGazres'' ''Passed with 850 marks''] ''#LblRollNo'' = Some (el ''LblRollNo'' ''763130'')"
  "select_one [el ''LblErr'' [], el ''LblName'' ''Ali Khan'', el ''LblRollNo'' ''763130'',
               el ''lblGazres'' ''Passed with 850 marks''] ''#lblGazres''
     = Some (el ''lblGazres'' ''Passed with 850 marks'')"
  by (code_simp, code_simp, code_simp, code_simp)

lemma select_one_Nil: "select_one [] sel = None"
  by (simp add: select_one_def split: list.splits)

lemma str_int_123456: "str_int 123456 = ''123456''"
  by code_simp

lemma text_stripped_el: "text_stripped (el ident txt) = txt"
  by (simp add: el_def)

lemma sim_fetch_down:
  "fst (fetch_one_roll server_down (PInt 123456) start_state) =
     Inr [(''Roll No'', PInt 123456), (''Name'', PStr []),
          (''Result'', PStr ''Error: Read timed out. (read timeout=20)'')]"
  by code_simp

subsection \<open>The token fetch\<close>

lemma subscript_Inr:
  "subscript x key = Inr v \<longleftrightarrow> (\<exists>t. x = Some t \<and> map_of (attrs t) key = Some v)"
  by (auto simp add: subscript_def split: option.splits)

lemma subscript_None: "\<exists>m. subscript None key = Inl (TypeError m)"
  by (simp add: subscript_def)

lemma get_tokens_get_fail:
  "fst (requests_get env BASE 20 (world st)) = Inl e \<Longrightarrow> fst (get_tokens env st) = Inl e"
  by (simp add: get_tokens_def session_get_eq)

lemma get_tokens_parse_fail:
  "fst (requests_get env BASE 20 (world st)) = Inr text \<Longrightarrow> bs4_parse env text = Inl e \<Longrightarrow>
   fst (get_tokens env st) = Inl e"
  by (simp add: get_tokens_def session_get_eq)

lemma get_tokens_parsed:
  "fst (requests_get env BASE 20 (world st)) = Inr text \<Longrightarrow> bs4_parse env text = Inr sp \<Longrightarrow>
   fst (get_tokens env st) =
     (case subscript (select_one sp ''#__VIEWSTATE'') ''value'' of
        Inl e \<Rightarrow> Inl e
      | Inr a \<Rightarrow>
          (case subscript (select_one sp ''#__EVENTVALIDATION'') ''value'' of
             Inl e \<Rightarrow> Inl e
           | Inr b \<Rightarrow> Inr (a, b)))"
  by (simp add: get_tokens_def session_get_eq split: sum.splits)

lemma get_tokens_field_absent:
  assumes "fst (requests_get env BASE 20 (world st)) = Inr text" and "bs4_parse env text = Inr sp"
    and "select_one sp ''#__VIEWSTATE'' = None \<or> select_one sp ''#__EVENTVALIDATION'' = None"
  shows "\<exists>e. fst (get_tokens env st) = Inl e"
proof -
  from assms(3) have
    "(\<exists>e. subscript (select_one sp ''#__VIEWSTATE'') ''value'' = Inl e) \<or>
     (\<exists>e. subscript (select_one sp ''#__EVENTVALIDATION'') ''value'' = Inl e)"
    using subscript_None [of "''value''"] by auto
  then show ?thesis
    by (auto simp add: get_tokens_parsed [OF assms(1,2)] split: sum.splits)
qed

lemma get_tokens_Inr:
  assumes "fst (get_tokens env st) = Inr (a, b)"
  shows "\<exists>text sp ta tb.
           fst (requests_get env BASE 20 (world st)) = Inr text \<and> bs4_parse env text = Inr sp \<and>
           select_one sp ''#__VIEWSTATE'' = Some ta \<and> map_of (attrs ta) ''value'' = Some a \<and>
           select_one sp ''#__EVENTVALIDATION'' = Some tb \<and> map_of (attrs tb) ''value'' = Some b"
proof (cases "fst (requests_get env BASE 20 (world st))")
  case (Inl e)
  with get_tokens_get_fail [of env st e] assms show ?thesis by simp
next
  case (Inr page_text)
  show ?thesis
  proof (cases "bs4_parse env page_text")
    case (Inl e)
    with get_tokens_parse_fail [OF Inr, of e] assms show ?thesis by simp
  next
    case sp: (Inr sp)
    from assms have
      "subscript (select_one sp ''#__VIEWSTATE'') ''value'' = Inr a \<and>
       subscript (select_one sp ''#__EVENTVALIDATION'') ''value'' = Inr b"
      by (simp add: get_tokens_parsed [OF Inr sp] split: sum.splits)
    with Inr sp show ?thesis
      by (auto simp add: subscript_Inr)
  qed
qed

text \<open>
  Claim C7. \<open>get_tokens\<close> raises whenever the GET raises (a timeout included), whenever
  the page cannot be parsed, and whenever one of the two hidden fields is missing from
  the page. A pair it returns consists of the \<open>value\<close> attributes of the two fields of
  the page, never of a substitute, and every call makes exactly one GET.
\<close>

theorem get_tokens_propagates:
  "(\<forall>e. fst (requests_get env BASE 20 (world st)) = Inl e \<longrightarrow> fst (get_tokens env st) = Inl e) \<and>
   (\<forall>text e. fst (requests_get env BASE 20 (world st)) = Inr text \<longrightarrow> bs4_parse env text = Inl e \<longrightarrow>
      fst (get_tokens env st) = Inl e) \<and>
   (\<forall>text sp. fst (requests_get env BASE 20 (world st)) = Inr text \<longrightarrow> bs4_parse env text = Inr sp \<longrightarrow>
      select_one sp ''#__VIEWSTATE'' = None \<or> select_one sp ''#__EVENTVALIDATION'' = None \<longrightarrow>
      (\<exists>e. fst (get_tokens env st) = Inl e)) \<and>
   (\<forall>a b. fst (get_tokens env st) = Inr (a, b) \<longrightarrow>
      (\<exists>text sp ta tb.
         fst (requests_get env BASE 20 (world st)) = Inr text \<and> bs4_parse env text = Inr sp \<and>
         select_one sp ''#__VIEWSTATE'' = Some ta \<and> map_of (attrs ta) ''value'' = Some a \<and>
         select_one sp ''#__EVENTVALIDATION'' = Some tb \<and> map_of (attrs tb) ''value'' = Some b)) \<and>
   snd (get_tokens env st) =
     \<lparr>world = snd (requests_get env BASE 20 (world st)), trace = trace st @ [Get BASE 20]\<rparr>"
  using get_tokens_get_fail [of env st] get_tokens_parse_fail [of env st]
    get_tokens_field_absent [of env st] get_tokens_Inr [of env st] get_tokens_state [of env st]
  by blast

theorem get_tokens_propagates_witness:
  "fst (requests_get server_down BASE 20 (world start_state)) = Inl timed_out \<and>
   fst (get_tokens server_down start_state) = Inl timed_out \<and>
   fst (requests_get server_half BASE 20 (world start_state)) = Inr ''HALF'' \<and>
   bs4_parse server_half ''HALF'' = Inr [hidden ''__VIEWSTATE'' ''vs1''] \<and>
   select_one [hidden ''__VIEWSTATE'' ''vs1''] ''#__EVENTVALIDATION'' = None \<and>
   (\<exists>e. fst (get_tokens server_half start_state) = Inl e) \<and>
   trace (snd (get_tokens server_down start_state)) = [Get BASE 20]"
proof -
  have g: "fst (requests_get server_down BASE 20 (world start_state)) = Inl timed_out"
    by (simp add: server_down_def sim_env_def)
  have h: "fst (requests_get server_half BASE 20 (world start_state)) = Inr ''HALF''"
    by (simp add: server_half_def sim_env_def)
  have p: "bs4_parse server_half ''HALF'' = Inr [hidden ''__VIEWSTATE'' ''vs1'']"
    by (simp add: server_half_def sim_env_def sim_parse_def)
  have s: "select_one [hidden ''__VIEWSTATE'' ''vs1''] ''#__EVENTVALIDATION'' = None"
    by code_simp
  have t: "trace start_state = []"
    by (simp add: start_state_def)
  from get_tokens_propagates [of server_down start_state] g
  have a: "fst (get_tokens server_down start_state) = Inl timed_out"
    and c: "trace (snd (get_tokens server_down start_state)) = trace start_state @ [Get BASE 20]"
    by simp_all
  from get_tokens_propagates [of server_half start_state] h p s
  have b: "\<exists>e. fst (get_tokens server_half start_state) = Inl e"
    by blast
  from g a h p s b c t show ?thesis by simp
qed

subsection \<open>The lookup of one roll number\<close>

text \<open>
  Claim C1. For every environment, roll number and state, \<open>fetch_one_roll\<close> returns a
  record and does not raise. Whatever exception the body of its \<open>try\<close> block raises
  becomes the record with the roll number as given, an empty Name and the Result
  \<open>"Error: "\<close> followed by the text of the exception; this is so in particular when the
  token fetch fails, when the form submission fails and when the answer cannot be parsed.
\<close>

theorem fetch_one_roll_never_raises:
  "(\<exists>d st1. fetch_one_roll env roll_no st = (Inr d, st1)) \<and>
   (\<forall>e. fst (fetch_one_roll_try env roll_no st) = Inl e \<longrightarrow>
      fst (fetch_one_roll env roll_no st) =
        Inr [(''Roll No'', roll_no), (''Name'', PStr []), (''Result'', PStr (''Error: '' @ str_exn e))]) \<and>
   (\<forall>e. fst (get_tokens env st) = Inl e \<longrightarrow>
      fst (fetch_one_roll env roll_no st) =
        Inr [(''Roll No'', roll_no), (''Name'', PStr []), (''Result'', PStr (''Error: '' @ str_exn e))]) \<and>
   (\<forall>vs ev st1 e.
      get_tokens env st = (Inr (vs, ev), st1) \<longrightarrow>
      fst (requests_post env BASE (payload vs ev roll_no) headers 20 (world st1)) = Inl e \<longrightarrow>
      fst (fetch_one_roll env roll_no st) =
        Inr [(''Roll No'', roll_no), (''Name'', PStr []), (''Result'', PStr (''Error: '' @ str_exn e))]) \<and>
   (\<forall>vs ev st1 text e.
      get_tokens env st = (Inr (vs, ev), st1) \<longrightarrow>
      fst (requests_post env BASE (payload vs ev roll_no) headers 20 (world st1)) = Inr text \<longrightarrow>
      bs4_parse env text = Inl e \<longrightarrow>
      fst (fetch_one_roll env roll_no st) =
        Inr [(''Roll No'', roll_no), (''Name'', PStr []), (''Result'', PStr (''Error: '' @ str_exn e))])"
proof (intro conjI allI impI)
  show "\<exists>d st1. fetch_one_roll env roll_no st = (Inr d, st1)"
    using fetch_one_roll_Inr [of env roll_no st] by (cases "fetch_one_roll env roll_no st") auto
qed (blast intro: fetch_of_try_Inl try_tokens_fail try_post_fail try_parse_fail)+

theorem fetch_one_roll_never_raises_witness:
  "fst (requests_get server_down BASE 20 (world start_state)) = Inl timed_out \<and>
   fst (fetch_one_roll server_down (PInt 123456) start_state) =
     Inr [(''Roll No'', PInt 123456), (''Name'', PStr []),
          (''Result'', PStr ''Error: Read timed out. (read timeout=20)'')] \<and>
   fst (fetch_one_roll server_slow (PInt 123456) start_state) =
     Inr [(''Roll No'', PInt 123456), (''Name'', PStr []),
          (''Result'', PStr ''Error: Read timed out. (read timeout=20)'')]"
proof -
  have g: "fst (requests_get server_down BASE 20 (world start_state)) = Inl timed_out"
    by (simp add: server_down_def sim_env_def)
  have t: "fst (get_tokens server_down start_state) = Inl timed_out"
    by code_simp
  have s: "get_tokens server_slow start_state =
             (Inr (''vs1'', ''ev1''), \<lparr>world = 1, trace = [Get BASE 20]\<rparr>)"
    by code_simp
  have p: "fst (requests_post server_slow BASE (payload ''vs1'' ''ev1'' (PInt 123456)) headers 20
             (world \<lparr>world = 1, trace = [Get BASE 20]\<rparr>)) = Inl timed_out"
    by (simp add: server_slow_def sim_env_def)
  have m: "str_exn timed_out = ''Read timed out. (read timeout=20)''"
    by (simp add: timed_out_def)
  from fetch_one_roll_never_raises [of server_down "PInt 123456" start_state] t
  have a: "fst (fetch_one_roll server_down (PInt 123456) start_state) =
     Inr [(''Roll No'', PInt 123456), (''Name'', PStr []), (''Result'', PStr (''Error: '' @ str_exn timed_out))]"
    by blast
  from fetch_one_roll_never_raises [of server_slow "PInt 123456" start_state] s p
  have b: "fst (fetch_one_roll server_slow (PInt 123456) start_state) =
     Inr [(''Roll No'', PInt 123456), (''Name'', PStr []), (''Result'', PStr (''Error: '' @ str_exn timed_out))]"
    by blast
  from g a b m show ?thesis by simp
qed

text \<open>
  Claim C3. When the form submission is answered with a page whose error label
  \<open>#LblErr\<close> is present with non-empty text, \<open>fetch_one_roll\<close> returns the record with
  an empty Name and that text as Result, whatever other fields the page holds.
\<close>

theorem fetch_one_roll_error_field:
  assumes "get_tokens env st = (Inr (vs, ev), st1)"
    and "fst (requests_post env BASE (payload vs ev roll_no) headers 20 (world st1)) = Inr text"
    and "bs4_parse env text = Inr sp"
    and "select_one sp ''#LblErr'' = Some err"
    and "text_stripped err \<noteq> []"
  shows "fst (fetch_one_roll env roll_no st) =
           Inr [(''Roll No'', roll_no), (''Name'', PStr []), (''Result'', PStr (text_stripped err))]"
  using try_parsed [OF assms(1-3)] read_result_error [OF assms(4,5)]
  by (simp add: fetch_of_try_Inr)

theorem fetch_one_roll_error_field_witness:
  "fst (fetch_one_roll server_up (PInt 7) start_state) =
     Inr [(''Roll No'', PInt 7), (''Name'', PStr []), (''Result'', PStr ''Invalid Roll No.'')] \<and>
   select_one [el ''LblErr'' ''Invalid Roll No.'', el ''LblName'' ''Ghost'',
               el ''LblRollNo'' ''000000'', el ''lblGazres'' ''none''] ''#LblRollNo''
     = Some (el ''LblRollNo'' ''000000'')"
proof -
  have n: "text_stripped (el ''LblErr'' ''Invalid Roll No.'') \<noteq> []"
    by (simp add: text_stripped_el)
  from fetch_one_roll_error_field
         [OF sim_tokens_up sim_post_invalid sim_parse_invalid sim_select_invalid(1) n]
       sim_select_invalid(2)
  show ?thesis
    by (simp add: text_stripped_el)
qed

text \<open>
  Claim C4. When the answer has no error label, or an empty one, \<open>fetch_one_roll\<close>
  returns the record of the page's roll number, name and result labels; the Roll No is
  the text of the given roll number when the page shows none, and Name and Result are
  empty when their label is absent.
\<close>

theorem fetch_one_roll_success:
  assumes "get_tokens env st = (Inr (vs, ev), st1)"
    and "fst (requests_post env BASE (payload vs ev roll_no) headers 20 (world st1)) = Inr text"
    and "bs4_parse env text = Inr sp"
    and "select_one sp ''#LblErr'' = None \<or>
         (\<exists>err. select_one sp ''#LblErr'' = Some err \<and> text_stripped err = [])"
  shows "fst (fetch_one_roll env roll_no st) =
           Inr [(''Roll No'', PStr (case select_one sp ''#LblRollNo'' of
                                      None \<Rightarrow> str roll_no | Some t \<Rightarrow> text_stripped t)),
                (''Name'', PStr (case select_one sp ''#LblName'' of
                                   None \<Rightarrow> [] | Some t \<Rightarrow> text_stripped t)),
                (''Result'', PStr (case select_one sp ''#lblGazres'' of
                                     None \<Rightarrow> [] | Some t \<Rightarrow> text_stripped t))]"
  using try_parsed [OF assms(1-3)] read_result_success [OF assms(4)]
  by (simp add: fetch_of_try_Inr)

theorem fetch_one_roll_success_witness:
  "fst (fetch_one_roll server_up (PInt 123456) start_state) =
     Inr [(''Roll No'', PStr ''763130''), (''Name'', PStr ''Ali Khan''),
          (''Result'', PStr ''Passed with 850 marks'')] \<and>
   fst (fetch_one_roll server_bare (PInt 123456) start_state) =
     Inr [(''Roll No'', PStr ''123456''), (''Name'', PStr []), (''Result'', PStr [])]"
proof -
  let ?sp = "[el ''LblErr'' [], el ''LblName'' ''Ali Khan'', el ''LblRollNo'' ''763130'',
              el ''lblGazres'' ''Passed with 850 marks'']"
  have s: "select_one ?sp ''#LblErr'' = None \<or>
           (\<exists>err. select_one ?sp ''#LblErr'' = Some err \<and> text_stripped err = [])"
    using sim_select_result(1) by (simp add: text_stripped_el)
  have s': "select_one [] ''#LblErr'' = None \<or>
           (\<exists>err. select_one [] ''#LblErr'' = Some err \<and> text_stripped err = [])"
    by (simp add: select_one_Nil)
  from fetch_one_roll_success [OF sim_tokens_up sim_post_result sim_parse_result s]
       fetch_one_roll_success [OF sim_tokens_bare sim_post_bare sim_parse_bare s']
  show ?thesis
    by (simp add: sim_select_result select_one_Nil str_int_123456 text_stripped_el)
qed

text \<open>
  Claim C8. Every record returned by \<open>fetch_one_roll\<close>, on whichever branch, has the
  keys \<open>"Roll No"\<close>, \<open>"Name"\<close> and \<open>"Result"\<close>, each once, and no other key.
\<close>

theorem fetch_one_roll_keys:
  "\<exists>d. fst (fetch_one_roll env roll_no st) = Inr d \<and>
        map fst d = [''Roll No'', ''Name'', ''Result'']"
proof (cases "fst (fetch_one_roll_try env roll_no st)")
  case (Inl e)
  then show ?thesis by (simp add: fetch_of_try_Inl)
next
  case (Inr d)
  from Inr have "\<exists>sp. d = read_result sp roll_no"
    by (auto simp add: fetch_one_roll_try_def split: prod.splits sum.splits)
  with Inr show ?thesis by (auto simp add: fetch_of_try_Inr read_result_keys)
qed

theorem fetch_one_roll_keys_witness:
  "fst (fetch_one_roll server_down (PInt 123456) start_state) =
     Inr [(''Roll No'', PInt 123456), (''Name'', PStr []),
          (''Result'', PStr ''Error: Read timed out. (read timeout=20)'')] \<and>
   map fst [(''Roll No'', PInt 123456), (''Name'', PStr []),
            (''Result'', PStr ''Error: Read timed out. (read timeout=20)'')] =
     [''Roll No'', ''Name'', ''Result'']"
  using fetch_one_roll_keys [of server_down "PInt 123456" start_state] sim_fetch_down
  by simp

text \<open>
  Claim C9. When the body of the \<open>try\<close> block raises, and when the answer carries a
  non-empty error label, the \<open>"Roll No"\<close> of the returned record is the roll number
  exactly as it was passed in. Only on the success branch is it a text: that of the
  page's roll number label, or \<open>str\<close> of the input when the page has no such label.
\<close>

theorem roll_no_converted_only_on_success:
  "(\<forall>e. fst (fetch_one_roll_try env roll_no st) = Inl e \<longrightarrow>
      (\<exists>d. fst (fetch_one_roll env roll_no st) = Inr d \<and> map_of d ''Roll No'' = Some roll_no)) \<and>
   (\<forall>vs ev st1 page sp.
      get_tokens env st = (Inr (vs, ev), st1) \<longrightarrow>
      fst (requests_post env BASE (payload vs ev roll_no) headers 20 (world st1)) = Inr page \<longrightarrow>
      bs4_parse env page = Inr sp \<longrightarrow>
      (\<forall>err. select_one sp ''#LblErr'' = Some err \<longrightarrow> text_stripped err \<noteq> [] \<longrightarrow>
         (\<exists>d. fst (fetch_one_roll env roll_no st) = Inr d \<and>
              map_of d ''Roll No'' = Some roll_no)) \<and>
      (select_one sp ''#LblErr'' = None \<or>
         (\<exists>err. select_one sp ''#LblErr'' = Some err \<and> text_stripped err = []) \<longrightarrow>
         (\<exists>d. fst (fetch_one_roll env roll_no st) = Inr d \<and>
              map_of d ''Roll No'' =
                Some (PStr (case select_one sp ''#LblRollNo'' of
                              None \<Rightarrow> str roll_no | Some t \<Rightarrow> text_stripped t)))))"
proof (intro conjI allI impI)
  fix e
  assume "fst (fetch_one_roll_try env roll_no st) = Inl e"
  then show "\<exists>d. fst (fetch_one_roll env roll_no st) = Inr d \<and> map_of d ''Roll No'' = Some roll_no"
    by (simp add: fetch_of_try_Inl)
next
  fix vs ev st1 page sp err
  assume "get_tokens env st = (Inr (vs, ev), st1)"
    and "fst (requests_post env BASE (payload vs ev roll_no) headers 20 (world st1)) = Inr page"
    and "bs4_parse env page = Inr sp"
    and "select_one sp ''#LblErr'' = Some err" and "text_stripped err \<noteq> []"
  then show "\<exists>d. fst (fetch_one_roll env roll_no st) = Inr d \<and> map_of d ''Roll No'' = Some roll_no"
    using try_parsed [of env st vs ev st1 roll_no page sp] read_result_error [of sp err roll_no]
    by (simp add: fetch_of_try_Inr)
next
  fix vs ev st1 page sp
  assume "get_tokens env st = (Inr (vs, ev), st1)"
    and "fst (requests_post env BASE (payload vs ev roll_no) headers 20 (world st1)) = Inr page"
    and "bs4_parse env page = Inr sp"
    and "select_one sp ''#LblErr'' = None \<or>
         (\<exists>err. select_one sp ''#LblErr'' = Some err \<and> text_stripped err = [])"
  then show "\<exists>d. fst (fetch_one_roll env roll_no st) = Inr d \<and>
              map_of d ''Roll No'' =
                Some (PStr (case select_one sp ''#LblRollNo'' of
                              None \<Rightarrow> str roll_no | Some t \<Rightarrow> text_stripped t))"
    using try_parsed [of env st vs ev st1 roll_no page sp] read_result_success [of sp roll_no]
    by (simp add: fetch_of_try_Inr)
qed

theorem roll_no_converted_only_on_success_witness:
  "(\<exists>d. fst (fetch_one_roll server_down (PInt 123456) start_state) = Inr d \<and>
        map_of d ''Roll No'' = Some (PInt 123456)) \<and>
   (\<exists>d. fst (fetch_one_roll server_up (PInt 7) start_state) = Inr d \<and>
        map_of d ''Roll No'' = Some (PInt 7)) \<and>
   (\<exists>d. fst (fetch_one_roll server_bare (PInt 123456) start_state) = Inr d \<and>
        map_of d ''Roll No'' = Some (PStr ''123456'')) \<and>
   PInt 7 \<noteq> PStr (str (PInt 7))"
proof -
  have e: "fst (fetch_one_roll_try server_down (PInt 123456) start_state) = Inl timed_out"
    using sim_tokens_down by (rule try_tokens_fail)
  have n: "text_stripped (el ''LblErr'' ''Invalid Roll No.'') \<noteq> []"
    by (simp add: text_stripped_el)
  have s: "select_one [] ''#LblErr'' = None \<or>
           (\<exists>err. select_one [] ''#LblErr'' = Some err \<and> text_stripped err = [])"
    by (simp add: select_one_Nil)
  from roll_no_converted_only_on_success [of server_down "PInt 123456" start_state] e
  have a: "\<exists>d. fst (fetch_one_roll server_down (PInt 123456) start_state) = Inr d \<and>
             map_of d ''Roll No'' = Some (PInt 123456)"
    by blast
  from roll_no_converted_only_on_success [of server_up "PInt 7" start_state]
       sim_tokens_up sim_post_invalid sim_parse_invalid sim_select_invalid(1) n
  have b: "\<exists>d. fst (fetch_one_roll server_up (PInt 7) start_state) = Inr d \<and>
             map_of d ''Roll No'' = Some (PInt 7)"
    by blast
  from roll_no_converted_only_on_success [of server_bare "PInt 123456" start_state]
       sim_tokens_bare sim_post_bare sim_parse_bare s
  have "\<exists>d. fst (fetch_one_roll server_bare (PInt 123456) start_state) = Inr d \<and>
             map_of d ''Roll No'' =
               Some (PStr (case select_one [] ''#LblRollNo'' of
                             None \<Rightarrow> str (PInt 123456) | Some t \<Rightarrow> text_stripped t))"
    by blast
  then have c: "\<exists>d. fst (fetch_one_roll server_bare (PInt 123456) start_state) = Inr d \<and>
             map_of d ''Roll No'' = Some (PStr ''123456'')"
    by (simp add: select_one_Nil str_int_123456)
  from a b c show ?thesis by simp
qed

subsection \<open>The report writer\<close>

lemma append_rows_eq:
  "append_rows rows data_list =
     rows @ map (\<lambda>entry. [dict_get entry ''Roll No'' (PStr []), dict_get entry ''Name'' (PStr []),
                           dict_get entry ''Result'' (PStr [])]) data_list"
  by (induction data_list arbitrary: rows) simp_all







lemma trace_Nil:
  "gets [] = []" "posts [] = []" "builds [] = []" "printed_lines [] = []" "printed_dicts [] = []"
  by (simp_all add: gets_def posts_def builds_def printed_lines_def printed_dicts_def)

lemma trace_Cons:
  "gets (Get u t # evs) = Get u t # gets evs"
  "gets (Post u d h t # evs) = gets evs"
  "gets (Print_line l # evs) = gets evs"
  "gets (Print_dict r # evs) = gets evs"
  "gets (Build doc # evs) = gets evs"
  "gets (Session_open # evs) = gets evs"
  "gets (Session_close # evs) = gets evs"
  "posts (Get u t # evs) = posts evs"
  "posts (Post u d h t # evs) = Post u d h t # posts evs"
  "posts (Print_line l # evs) = posts evs"
  "posts (Print_dict r # evs) = posts evs"
  "posts (Build doc # evs) = posts evs"
  "posts (Session_open # evs) = posts evs"
  "posts (Session_close # evs) = posts evs"
  "builds (Get u t # evs) = builds evs"
  "builds (Post u d h t # evs) = builds evs"
  "builds (Print_line l # evs) = builds evs"
  "builds (Print_dict r # evs) = builds evs"
  "builds (Build doc # evs) = doc # builds evs"
  "builds (Session_open # evs) = builds evs"
  "builds (Session_close # evs) = builds evs"
  "printed_lines (Get u t # evs) = printed_lines evs"
  "printed_lines (Post u d h t # evs) = printed_lines evs"
  "printed_lines (Print_line l # evs) = l # printed_lines evs"
  "printed_lines (Print_dict r # evs) = printed_lines evs"
  "printed_lines (Build doc # evs) = printed_lines evs"
  "printed_lines (Session_open # evs) = printed_lines evs"
  "printed_lines (Session_close # evs) = printed_lines evs"
  "printed_dicts (Get u t # evs) = printed_dicts evs"
  "printed_dicts (Post u d h t # evs) = printed_dicts evs"
  "printed_dicts (Print_line l # evs) = printed_dicts evs"
  "printed_dicts (Print_dict r # evs) = r # printed_dicts evs"
  "printed_dicts (Build doc # evs) = printed_dicts evs"
  "printed_dicts (Session_open # evs) = printed_dicts evs"
  "printed_dicts (Session_close # evs) = printed_dicts evs"
  by (simp_all add: gets_def posts_def builds_def printed_lines_def printed_dicts_def)

lemma print_eq:
  "print env x st =
     (fst (builtin_print env x (world st)),
      \<lparr>world = snd (builtin_print env x (world st)),
         trace = trace st @ [case x of Text l \<Rightarrow> Print_line l | Dict d \<Rightarrow> Print_dict d]\<rparr>)"
  by (simp add: print_def log_def split: prod.splits)

lemma save_summary_pdf_eq:
  "save_summary_pdf env data_list fname st =
     (let doc = \<lparr>filename = fname, page = Landscape_A4,
                 elements = [Paragraph ''BISE Sargodha Exam Results (Summary)'' ''Title'',
                             Spacer 1 20, summary_table data_list]\<rparr>;
          r = reportlab_build env doc (world st);
          p = builtin_print env (Text (saved_message fname)) (snd r)
      in case fst r of
           Inl e \<Rightarrow> (Inl e, \<lparr>world = snd r, trace = trace st @ [Build doc]\<rparr>)
         | Inr u \<Rightarrow>
             (fst p, \<lparr>world = snd p,
                       trace = trace st @ [Build doc, Print_line (saved_message fname)]\<rparr>))"
  by (simp add: save_summary_pdf_def doc_build_eq print_eq Let_def split: sum.splits)

lemma save_summary_pdf_trace:
  "trace (snd (save_summary_pdf env data_list fname st)) =
     trace st @
     Build \<lparr>filename = fname, page = Landscape_A4,
            elements = [Paragraph ''BISE Sargodha Exam Results (Summary)'' ''Title'',
                        Spacer 1 20, summary_table data_list]\<rparr> #
     (case fst (reportlab_build env
                  \<lparr>filename = fname, page = Landscape_A4,
                   elements = [Paragraph ''BISE Sargodha Exam Results (Summary)'' ''Title'',
                               Spacer 1 20, summary_table data_list]\<rparr> (world st)) of
        Inl e \<Rightarrow> [] | Inr u \<Rightarrow> [Print_line (saved_message fname)])"
  by (simp add: save_summary_pdf_eq Let_def split: sum.splits)

text \<open>
  Claim C5. For every list of records, the table that \<open>save_summary_pdf\<close> hands to the
  PDF builder has the row \<open>["Roll No", "Name", "Final Result"]\<close> first, followed by one
  row per record in the order of the list, so it has one row more than there are
  records; the document with this table is the one document built.
\<close>

theorem save_summary_pdf_table:
  "\<exists>rows tail.
     summary_table data_list = Table rows [100, 180, 250] table_style \<and>
     length rows = length data_list + 1 \<and>
     rows ! 0 = [PStr ''Roll No'', PStr ''Name'', PStr ''Final Result''] \<and>
     (\<forall>i<length data_list.
        rows ! (i + 1) =
          [dict_get (data_list ! i) ''Roll No'' (PStr []),
           dict_get (data_list ! i) ''Name'' (PStr []),
           dict_get (data_list ! i) ''Result'' (PStr [])]) \<and>
     trace (snd (save_summary_pdf env data_list fname st)) =
       trace st @
       Build \<lparr>filename = fname, page = Landscape_A4,
              elements = [Paragraph ''BISE Sargodha Exam Results (Summary)'' ''Title'',
                          Spacer 1 20, Table rows [100, 180, 250] table_style]\<rparr> # tail \<and>
     builds tail = []"
proof -
  let ?rows = "append_rows [header_row] data_list"
  let ?doc = "\<lparr>filename = fname, page = Landscape_A4,
                elements = [Paragraph ''BISE Sargodha Exam Results (Summary)'' ''Title'',
                            Spacer 1 20, summary_table data_list]\<rparr>"
  let ?tail = "case fst (reportlab_build env ?doc (world st)) of
                 Inl e \<Rightarrow> [] | Inr u \<Rightarrow> [Print_line (saved_message fname)]"
  have 1: "summary_table data_list = Table ?rows [100, 180, 250] table_style"
    by (simp add: summary_table_def)
  have 2: "length ?rows = length data_list + 1"
    by (simp add: append_rows_eq)
  have 3: "?rows ! 0 = [PStr ''Roll No'', PStr ''Name'', PStr ''Final Result'']"
    by (simp add: append_rows_eq header_row_def)
  have 4: "\<forall>i<length data_list.
        ?rows ! (i + 1) =
          [dict_get (data_list ! i) ''Roll No'' (PStr []),
           dict_get (data_list ! i) ''Name'' (PStr []),
           dict_get (data_list ! i) ''Result'' (PStr [])]"
    by (simp add: append_rows_eq)
  have 5: "trace (snd (save_summary_pdf env data_list fname st)) = trace st @ Build ?doc # ?tail"
    by (simp add: save_summary_pdf_trace summary_table_def)
  have 6: "builds ?tail = []"
    by (simp add: trace_Cons trace_Nil split: sum.splits)
  from 1 2 3 4 5 6 show ?thesis
    by (intro exI [of _ ?rows] exI [of _ ?tail]) (simp only: simp_thms)
qed

theorem save_summary_pdf_table_witness:
  "\<exists>rows. summary_table [[(''Roll No'', PInt 7), (''Name'', PStr []),
                           (''Result'', PStr ''Invalid Roll No.'')], []] =
            Table rows [100, 180, 250] table_style \<and>
          length rows = 3 \<and>
          rows ! 0 = [PStr ''Roll No'', PStr ''Name'', PStr ''Final Result''] \<and>
          rows ! 1 = [PInt 7, PStr [], PStr ''Invalid Roll No.''] \<and>
          rows ! 2 = [PStr [], PStr [], PStr []]"
proof -
  let ?data = "[[(''Roll No'', PInt 7), (''Name'', PStr []),
                 (''Result'', PStr ''Invalid Roll No.'')], []] :: dict list"
  obtain rows where t: "summary_table ?data = Table rows [100, 180, 250] table_style"
    and n: "length rows = length ?data + 1"
    and h: "rows ! 0 = [PStr ''Roll No'', PStr ''Name'', PStr ''Final Result'']"
    and r: "\<forall>i<length ?data.
        rows ! (i + 1) =
          [dict_get (?data ! i) ''Roll No'' (PStr []),
           dict_get (?data ! i) ''Name'' (PStr []),
           dict_get (?data ! i) ''Result'' (PStr [])]"
    using save_summary_pdf_table [of ?data server_up "''out.pdf''" start_state] by blast
  from r have "rows ! (0 + 1) =
          [dict_get (?data ! 0) ''Roll No'' (PStr []),
           dict_get (?data ! 0) ''Name'' (PStr []),
           dict_get (?data ! 0) ''Result'' (PStr [])]"
    by (rule allE [of _ 0]) simp
  then have r1: "rows ! 1 = [PInt 7, PStr [], PStr ''Invalid Roll No.'']"
    by (simp add: dict_get_def)
  from r have "rows ! (1 + 1) =
          [dict_get (?data ! 1) ''Roll No'' (PStr []),
           dict_get (?data ! 1) ''Name'' (PStr []),
           dict_get (?data ! 1) ''Result'' (PStr [])]"
    by (rule allE [of _ 1]) simp
  then have r2: "rows ! 2 = [PStr [], PStr [], PStr []]"
    by (simp add: dict_get_def numeral_2_eq_2)
  from t n h r1 r2 show ?thesis by auto
qed

subsection \<open>The main loop\<close>


lemma main_eq:
  assumes "driver_loop env [start_roll..end_roll] [] (log Session_open st) = (Inr results, st1)"
  shows "main env start_roll end_roll st =
           save_summary_pdf env results ''bise_results_summary.pdf'' (log Session_close st1)"
  using assms by (simp add: main_def)

text \<open>
  Claim C10. When \<open>end_roll\<close> is less than \<open>start_roll\<close> the loop does nothing: no
  lookup and no network call happens between opening and closing the session. The
  report writer is still invoked, once, on the empty list, and the table of its
  document is the header row alone.
\<close>

theorem empty_range_header_only:
  assumes "end_roll < start_roll"
  shows "driver_loop env [start_roll..end_roll] [] (log Session_open st) =
           (Inr [], log Session_open st) \<and>
         (\<exists>tail. trace (snd (main env start_roll end_roll st)) =
            trace st @
            [Session_open, Session_close,
             Build \<lparr>filename = ''bise_results_summary.pdf'', page = Landscape_A4,
                    elements = [Paragraph ''BISE Sargodha Exam Results (Summary)'' ''Title'',
                                Spacer 1 20,
                                Table [[PStr ''Roll No'', PStr ''Name'', PStr ''Final Result'']]
                                  [100, 180, 250] table_style]\<rparr>] @ tail \<and>
            (tail = [] \<or> tail = [Print_line (saved_message ''bise_results_summary.pdf'')]))"
proof -
  from assms have e: "[start_roll..end_roll] = []" by simp
  then have l: "driver_loop env [start_roll..end_roll] [] (log Session_open st) =
                  (Inr [], log Session_open st)"
    by simp
  have t: "summary_table [] =
             Table [[PStr ''Roll No'', PStr ''Name'', PStr ''Final Result'']] [100, 180, 250] table_style"
    by (simp add: summary_table_def header_row_def)
  let ?doc = "\<lparr>filename = ''bise_results_summary.pdf'', page = Landscape_A4,
                elements = [Paragraph ''BISE Sargodha Exam Results (Summary)'' ''Title'',
                            Spacer 1 20,
                            Table [[PStr ''Roll No'', PStr ''Name'', PStr ''Final Result'']]
                              [100, 180, 250] table_style]\<rparr>"
  let ?tail = "case fst (reportlab_build env ?doc (world st)) of
                 Inl e \<Rightarrow> [] | Inr u \<Rightarrow> [Print_line (saved_message ''bise_results_summary.pdf'')]"
  have m: "trace (snd (main env start_roll end_roll st)) =
             trace st @ [Session_open, Session_close, Build ?doc] @ ?tail"
    by (simp add: main_eq [OF l] save_summary_pdf_trace t log_def)
  have c: "?tail = [] \<or> ?tail = [Print_line (saved_message ''bise_results_summary.pdf'')]"
    by (simp split: sum.splits)
  from l m c show ?thesis by blast
qed

theorem empty_range_header_only_witness:
  "(4::int) < 5 \<and>
   driver_loop server_up [5..4] [] (log Session_open start_state) =
     (Inr [], log Session_open start_state) \<and>
   trace (snd (main server_up 5 4 start_state)) =
     [Session_open, Session_close,
      Build \<lparr>filename = ''bise_results_summary.pdf'', page = Landscape_A4,
             elements = [Paragraph ''BISE Sargodha Exam Results (Summary)'' ''Title'',
                         Spacer 1 20,
                         Table [[PStr ''Roll No'', PStr ''Name'', PStr ''Final Result'']]
                           [100, 180, 250] table_style]\<rparr>,
      Print_line (saved_message ''bise_results_summary.pdf'')]"
proof -
  have h: "(4::int) < 5" by simp
  have t: "trace (snd (main server_up 5 4 start_state)) =
     [Session_open, Session_close,
      Build \<lparr>filename = ''bise_results_summary.pdf'', page = Landscape_A4,
             elements = [Paragraph ''BISE Sargodha Exam Results (Summary)'' ''Title'',
                         Spacer 1 20,
                         Table [[PStr ''Roll No'', PStr ''Name'', PStr ''Final Result'']]
                           [100, 180, 250] table_style]\<rparr>,
      Print_line (saved_message ''bise_results_summary.pdf'')]"
    by code_simp
  from empty_range_header_only [OF h, of server_up start_state] h t show ?thesis
    by simp
qed












end
